theory Spec2Isabelle
  imports Main
begin

section \<open>Python values and exceptions\<close>

text \<open>
  The model covers \<^verbatim>\<open>src/cldfbench/cldf.py\<close>: the classes \<^verbatim>\<open>CLDFSpec\<close> and
  \<^verbatim>\<open>CLDFWriter\<close>. Every exception that the code or one of the libraries it
  calls can raise is a value; a function that can raise returns \<open>exc + 'a\<close>, with
  \<open>Inl\<close> for the exception. All exception classes below derive from Python's
  \<^verbatim>\<open>Exception\<close>; asynchronous interrupts are not modelled.
\<close>

datatype oserror =
    FileNotFoundError
  | FileExistsError
  | NotADirectoryError
  | IsADirectoryError
  | PermissionError
  | SameFileError

datatype exc =
    ValueError string
  | KeyError string
  | IndexError
  | AttributeError
  | OSError oserror
  | CalledProcessError int
  | LibraryError string

text \<open>A JSON-LD record (\<^verbatim>\<open>collections.OrderedDict\<close>) and a table row.\<close>

type_synonym json = "(string \<times> string) list"
type_synonym row = "(string \<times> string) list"

text \<open>Truthiness of an optional string: \<^verbatim>\<open>None\<close> and \<^verbatim>\<open>''\<close> are falsy.\<close>

fun truthy :: "string option \<Rightarrow> bool" where
  "truthy None = False"
| "truthy (Some s) = (s \<noteq> [])"

text \<open>
  \<^verbatim>\<open>str.split()\<close> without arguments: tokens are the maximal runs of
  non-whitespace characters.
\<close>

definition isspace :: "char \<Rightarrow> bool" where
  "isspace c =
     (let n = (of_char c :: nat)
      in (9 \<le> n \<and> n \<le> 13) \<or> (28 \<le> n \<and> n \<le> 32) \<or> n = 133 \<or> n = 160)"

fun split_from :: "string \<Rightarrow> string \<Rightarrow> string list" where
  "split_from cur [] = (if cur = [] then [] else [cur])"
| "split_from cur (c # cs) =
     (if isspace c then (if cur = [] then split_from [] cs else cur # split_from [] cs)
      else split_from (cur @ [c]) cs)"

definition split :: "string \<Rightarrow> string list" where
  "split s = split_from [] s"

section \<open>pathlib: pure POSIX paths\<close>

text \<open>
  A \<^verbatim>\<open>pathlib.Path\<close> is its root (\<^verbatim>\<open>''\<close>, \<^verbatim>\<open>'/'\<close> or \<^verbatim>\<open>'//'\<close>) and its
  components. Parsing a string drops empty components and \<^verbatim>\<open>'.'\<close>; a component
  \<^verbatim>\<open>'..'\<close> is kept as it is.
\<close>

datatype path = PurePath (root: string) (parts: "string list")

fun split_sep :: "string \<Rightarrow> string list" where
  "split_sep [] = [[]]"
| "split_sep (c # cs) =
     (if c = CHR ''/'' then [] # split_sep cs
      else (case split_sep cs of [] \<Rightarrow> [[c]] | x # xs \<Rightarrow> (c # x) # xs))"

definition splitroot :: "string \<Rightarrow> string" where
  "splitroot s =
     (if take 1 s = ''/'' then
        (if length (takeWhile (\<lambda>c. c = CHR ''/'') s) = 2 then ''//'' else ''/'')
      else [])"

definition Path :: "string \<Rightarrow> path" where
  "Path s = PurePath (splitroot s) (filter (\<lambda>c. c \<noteq> [] \<and> c \<noteq> ''.'') (split_sep s))"

fun join_sep :: "string list \<Rightarrow> string" where
  "join_sep [] = []"
| "join_sep [x] = x"
| "join_sep (x # y # ys) = x @ ''/'' @ join_sep (y # ys)"

definition str :: "path \<Rightarrow> string" where
  "str p = (if root p = [] \<and> parts p = [] then ''.'' else root p @ join_sep (parts p))"

definition name :: "path \<Rightarrow> string" where
  "name p = (case rev (parts p) of [] \<Rightarrow> [] | x # _ \<Rightarrow> x)"

definition parent :: "path \<Rightarrow> path" where
  "parent p = PurePath (root p) (butlast (parts p))"

text \<open>\<^verbatim>\<open>p / s\<close> and \<^verbatim>\<open>p.joinpath(s)\<close>: an anchored right operand replaces the left.\<close>

definition joinpath :: "path \<Rightarrow> string \<Rightarrow> path" where
  "joinpath p s =
     (let q = Path s
      in if root q \<noteq> [] then q else PurePath (root p) (parts p @ parts q))"

section \<open>The file system\<close>

text \<open>
  The file system maps a path to what is there. The two anchors (the root
  directory and the working directory, paths without components) are always
  directories. Paths are compared as written: the model does not resolve
  \<^verbatim>\<open>'..'\<close>, symbolic links, or a relative path against an absolute one.
\<close>

datatype node = Dir | File string

type_synonym fs = "path \<rightharpoonup> node"

definition stat :: "fs \<Rightarrow> path \<Rightarrow> node option" where
  "stat f p = (if parts p = [] then Some Dir else f p)"

definition exists :: "fs \<Rightarrow> path \<Rightarrow> bool" where
  "exists f p = (stat f p \<noteq> None)"

definition is_dir :: "fs \<Rightarrow> path \<Rightarrow> bool" where
  "is_dir f p = (stat f p = Some Dir)"


text \<open>\<^verbatim>\<open>Path.mkdir()\<close> with its defaults \<^verbatim>\<open>parents=False, exist_ok=False\<close>.\<close>

definition mkdir :: "fs \<Rightarrow> path \<Rightarrow> exc + fs" where
  "mkdir f p =
     (if exists f p then Inl (OSError FileExistsError)
      else (case stat f (parent p) of
              None \<Rightarrow> Inl (OSError FileNotFoundError)
            | Some (File _) \<Rightarrow> Inl (OSError NotADirectoryError)
            | Some Dir \<Rightarrow> Inr (f(p \<mapsto> Dir))))"

text \<open>\<^verbatim>\<open>Path.open('wb')\<close>: creates the file, or truncates the one that is there.\<close>

definition open_wb :: "fs \<Rightarrow> path \<Rightarrow> exc + fs" where
  "open_wb f p =
     (case stat f p of
        Some Dir \<Rightarrow> Inl (OSError IsADirectoryError)
      | _ \<Rightarrow>
         (case stat f (parent p) of
            None \<Rightarrow> Inl (OSError FileNotFoundError)
          | Some (File _) \<Rightarrow> Inl (OSError NotADirectoryError)
          | Some Dir \<Rightarrow> Inr (f(p \<mapsto> File []))))"

definition read_file :: "fs \<Rightarrow> path \<Rightarrow> exc + string" where
  "read_file f p =
     (case stat f p of
        None \<Rightarrow> Inl (OSError FileNotFoundError)
      | Some Dir \<Rightarrow> Inl (OSError IsADirectoryError)
      | Some (File c) \<Rightarrow> Inr c)"

text \<open>
  \<^verbatim>\<open>shutil.copy(src, dst)\<close>: a destination that is a directory receives the file
  under the source's base name; copying a file onto itself is refused.
\<close>

definition shutil_copy :: "fs \<Rightarrow> path \<Rightarrow> path \<Rightarrow> exc + fs" where
  "shutil_copy f src dst =
     (let dst' = (if is_dir f dst then joinpath dst (name src) else dst)
      in if src = dst' \<and> exists f src then Inl (OSError SameFileError)
         else (case read_file f src of
                 Inl e \<Rightarrow> Inl e
               | Inr c \<Rightarrow>
                  (case open_wb f dst' of
                     Inl e \<Rightarrow> Inl e
                   | Inr f' \<Rightarrow> Inr (f'(dst' \<mapsto> File c)))))"

section \<open>The collaborators\<close>

text \<open>
  The libraries the code calls are parameters of the model, gathered in one
  record of the environment:
  \<^item> \<open>get_modules\<close>: pycldf's registry of schema modules, each with its identifier
    and the name of its dataset class;
  \<^item> \<open>in_message\<close>: the text \<^verbatim>\<open>attr.validators.in_\<close> puts in its
    \<^verbatim>\<open>ValueError\<close> for a rejected value;
  \<^item> \<open>MD_SUFFIX\<close> and \<open>pkg_dir\<close>: pycldf's metadata suffix and package directory;
  \<^item> \<open>from_metadata\<close>: \<^verbatim>\<open>cls.from_metadata(path)\<close> for the class of that name;
    it fails or yields the keys that item access on the loaded dataset accepts;
  \<^item> \<open>sys_version\<close>: \<^verbatim>\<open>sys.version\<close>;
  \<^item> \<open>pip_freeze\<close>: what running \<^verbatim>\<open>pip freeze\<close> does;
  \<^item> \<open>cldf_write\<close>: the outcome of pycldf's \<^verbatim>\<open>Dataset.write\<close>, given the calls
    made on the dataset before, the rows passed, and the file system.
\<close>

datatype Module = Module (module_id: string) (module_cls: string)

text \<open>
  A child process either cannot be started (\<^verbatim>\<open>subprocess.run\<close> raises an
  \<^verbatim>\<open>OSError\<close>) or exits with a return code, having written its output.
\<close>

datatype run_outcome = NotStarted oserror | Exited int string

text \<open>
  The pycldf dataset behind \<^verbatim>\<open>CLDFWriter.cldf\<close> is the list of keys its item
  access accepts, and the calls made on it so far, in order.
\<close>

datatype call =
    SetProperty string string
  | AddProvenance string "json list"
  | SetUrl string string
  | Write "(string \<times> row list) list"

record pycldf_dataset =
  components :: "string list"
  calls :: "call list"

definition record_call :: "pycldf_dataset \<Rightarrow> call \<Rightarrow> pycldf_dataset" where
  "record_call h c = h\<lparr>calls := calls h @ [c]\<rparr>"

record env =
  get_modules :: "Module list"
  in_message :: "string \<Rightarrow> string"
  MD_SUFFIX :: string
  pkg_dir :: path
  from_metadata :: "string \<Rightarrow> fs \<Rightarrow> path \<Rightarrow> exc + string list"
  sys_version :: string
  pip_freeze :: run_outcome
  cldf_write :: "call list \<Rightarrow> (string \<times> row list) list \<Rightarrow> fs \<Rightarrow> exc option \<times> fs"

text \<open>\<^verbatim>\<open>pycldf.util.pkg_path(*comps)\<close>: the components joined to the package directory.\<close>

definition pkg_path :: "env \<Rightarrow> string list \<Rightarrow> path" where
  "pkg_path env comps = foldl joinpath (pkg_dir env) comps"

section \<open>CLDFSpec\<close>

text \<open>
  The \<^verbatim>\<open>module\<close> argument is the name of a module or a dataset class; the
  converter \<^verbatim>\<open>lambda cls: getattr(cls, '__name__', cls)\<close> replaces a class by its
  name.
\<close>

datatype module_arg = ModuleName string | DatasetClass string

fun converter :: "module_arg \<Rightarrow> string" where
  "converter (ModuleName s) = s"
| "converter (DatasetClass n) = n"

record CLDFSpec =
  module :: string
  default_metadata_path :: path
  metadata_fname :: string
  data_fnames :: "(string \<times> string) list"

text \<open>
  \<^verbatim>\<open>__attrs_post_init__\<close>, on the attribute values as \<^verbatim>\<open>__init__\<close> stored them.
  The base class \<^verbatim>\<open>Dataset\<close> loads the given metadata; every exception of the
  load becomes a \<^verbatim>\<open>ValueError\<close>.
\<close>

definition attrs_post_init ::
  "env \<Rightarrow> fs \<Rightarrow> string \<Rightarrow> string option \<Rightarrow> string option \<Rightarrow> (string \<times> string) list
     \<Rightarrow> exc + CLDFSpec" where
  "attrs_post_init env f m dmp mf df =
     (case (case dmp of
              Some s \<Rightarrow>
                (if truthy dmp then
                   (let p = Path s
                    in case from_metadata env ''Dataset'' f p of
                         Inl e \<Rightarrow> Inl (ValueError (''invalid default metadata: '' @ str p))
                       | Inr _ \<Rightarrow> Inr p)
                 else Inr (pkg_path env [''modules'', m @ MD_SUFFIX env]))
            | None \<Rightarrow> Inr (pkg_path env [''modules'', m @ MD_SUFFIX env])) of
        Inl e \<Rightarrow> Inl e
      | Inr p \<Rightarrow>
          Inr \<lparr>module = m, default_metadata_path = p,
               metadata_fname = (case mf of
                                   Some n \<Rightarrow> (if truthy mf then n else name p)
                                 | None \<Rightarrow> name p),
               data_fnames = df\<rparr>)"

text \<open>
  The constructor attrs generates: defaults, the converter, the validator
  \<^verbatim>\<open>in_([m.id for m in get_modules()])\<close>, then \<^verbatim>\<open>__attrs_post_init__\<close>. An
  argument that is \<open>None\<close> is one the caller left out.
\<close>

definition CLDFSpec_init ::
  "env \<Rightarrow> fs \<Rightarrow> module_arg option \<Rightarrow> string option \<Rightarrow> string option \<Rightarrow> (string \<times> string) list
     \<Rightarrow> exc + CLDFSpec" where
  "CLDFSpec_init env f marg dmp mf df =
     (let m = (case marg of None \<Rightarrow> ''Generic'' | Some c \<Rightarrow> converter c)
      in if m \<in> set (map module_id (get_modules env))
         then attrs_post_init env f m dmp mf df
         else Inl (ValueError (in_message env m)))"

text \<open>The property \<^verbatim>\<open>cls\<close>: the class of the first module with that identifier, or \<^verbatim>\<open>None\<close>.\<close>

fun find_cls :: "Module list \<Rightarrow> string \<Rightarrow> string option" where
  "find_cls [] m = None"
| "find_cls (x # xs) m = (if module_id x = m then Some (module_cls x) else find_cls xs m)"

definition cls :: "env \<Rightarrow> CLDFSpec \<Rightarrow> string option" where
  "cls env spec = find_cls (get_modules env) (module spec)"

section \<open>CLDFWriter\<close>

text \<open>
  A value of the command line is a \<^verbatim>\<open>Catalog\<close>, with the record its
  \<^verbatim>\<open>json_ld()\<close> returns, or something else. A \<^verbatim>\<open>cldfbench.Dataset\<close> has a
  repository, with the record of its \<^verbatim>\<open>json_ld()\<close>, or \<^verbatim>\<open>None\<close>.
\<close>

datatype argval = Catalog json | Other string

record cldfbench_dataset =
  repo :: "json option"

record CLDFWriter =
  cldf_spec :: CLDFSpec
  objects :: "(string \<times> row list) list"
  args :: "(string \<times> argval) list option"
  dataset :: "cldfbench_dataset option"
  dir :: path
  cldf :: pycldf_dataset

definition CLDFWriter_init ::
  "env \<Rightarrow> fs \<Rightarrow> string \<Rightarrow> CLDFSpec option \<Rightarrow> (string \<times> argval) list option
     \<Rightarrow> cldfbench_dataset option \<Rightarrow> (exc + CLDFWriter) \<times> fs" where
  "CLDFWriter_init env f outdir spec a ds =
     (case (case spec of Some s \<Rightarrow> Inr s | None \<Rightarrow> CLDFSpec_init env f None None None []) of
        Inl e \<Rightarrow> (Inl e, f)
      | Inr sp \<Rightarrow>
         (let out = Path outdir
          in case (if \<not> exists f out then mkdir f out else Inr f) of
               Inl e \<Rightarrow> (Inl e, f)
             | Inr f1 \<Rightarrow>
                (let md = joinpath out (metadata_fname sp)
                 in case shutil_copy f1 (default_metadata_path sp) md of
                      Inl e \<Rightarrow> (Inl e, f1)
                    | Inr f2 \<Rightarrow>
                       (case cls env sp of
                          None \<Rightarrow> (Inl AttributeError, f2)
                        | Some c \<Rightarrow>
                           (case from_metadata env c f2 md of
                              Inl e \<Rightarrow> (Inl e, f2)
                            | Inr comps \<Rightarrow>
                               (Inr \<lparr>cldf_spec = sp, objects = [], args = a, dataset = ds,
                                     dir = out,
                                     cldf = \<lparr>components = comps, calls = []\<rparr>\<rparr>, f2))))))"

text \<open>The sources of the provenance: the repository, then the catalogs among the arguments.\<close>

fun catalog_records :: "argval list \<Rightarrow> json list" where
  "catalog_records [] = []"
| "catalog_records (Catalog j # vs) = j # catalog_records vs"
| "catalog_records (Other x # vs) = catalog_records vs"

definition srcs :: "CLDFWriter \<Rightarrow> json list" where
  "srcs w =
     (case dataset w of
        Some d \<Rightarrow> (case repo d of Some r \<Rightarrow> [r] | None \<Rightarrow> [])
      | None \<Rightarrow> [])
     @ (case args w of
          Some a \<Rightarrow> catalog_records (map snd a)
        | None \<Rightarrow> [])"

text \<open>
  \<^verbatim>\<open>subprocess.run(['pip', 'freeze'], stdout=out, check=True)\<close>: the output goes
  to the open file; a return code other than zero raises \<^verbatim>\<open>CalledProcessError\<close>.
\<close>

definition run_pip_freeze :: "env \<Rightarrow> fs \<Rightarrow> path \<Rightarrow> (exc + unit) \<times> fs" where
  "run_pip_freeze env f out =
     (case pip_freeze env of
        NotStarted e \<Rightarrow> (Inl (OSError e), f)
      | Exited rc text \<Rightarrow>
          (if rc \<noteq> 0 then Inl (CalledProcessError rc) else Inr (), f(out \<mapsto> File text)))"

text \<open>The two entries of the \<^verbatim>\<open>wasGeneratedBy\<close> list and the file of the package list.\<close>

definition python_entry :: "string \<Rightarrow> json" where
  "python_entry v = [(''dc:title'', ''python''), (''dc:description'', v)]"

definition packages_entry :: json where
  "packages_entry = [(''dc:title'', ''python-packages''), (''dc:relation'', ''requirements.txt'')]"

definition requirements_txt :: "CLDFWriter \<Rightarrow> path" where
  "requirements_txt w = joinpath (dir w) ''requirements.txt''"

text \<open>
  The body of the \<^verbatim>\<open>try\<close> statement: the file is opened while the arguments of
  \<^verbatim>\<open>subprocess.run\<close> are evaluated, before the command runs.
\<close>

definition try_body :: "env \<Rightarrow> CLDFWriter \<Rightarrow> json list \<Rightarrow> fs \<Rightarrow> (exc + json list) \<times> fs" where
  "try_body env w reqs f =
     (case open_wb f (requirements_txt w) of
        Inl e \<Rightarrow> (Inl e, f)
      | Inr f1 \<Rightarrow>
         (case run_pip_freeze env f1 (requirements_txt w) of
            (Inl e, f2) \<Rightarrow> (Inl e, f2)
          | (Inr u, f2) \<Rightarrow> (Inr (reqs @ [packages_entry]), f2)))"

text \<open>The \<^verbatim>\<open>try\<close> statement with its handler \<^verbatim>\<open>except subprocess.CalledProcessError: pass\<close>.\<close>

definition try_except :: "env \<Rightarrow> CLDFWriter \<Rightarrow> json list \<Rightarrow> fs \<Rightarrow> (exc + json list) \<times> fs" where
  "try_except env w reqs f =
     (case try_body env w reqs f of
        (Inl (CalledProcessError rc), f') \<Rightarrow> (Inr reqs, f')
      | (Inl e, f') \<Rightarrow> (Inl e, f')
      | (Inr reqs', f') \<Rightarrow> (Inr reqs', f'))"

text \<open>The loop over \<^verbatim>\<open>data_fnames\<close>: item access on the dataset raises \<^verbatim>\<open>KeyError\<close>.\<close>

fun set_urls :: "pycldf_dataset \<Rightarrow> (string \<times> string) list \<Rightarrow> (exc + unit) \<times> pycldf_dataset" where
  "set_urls h [] = (Inr (), h)"
| "set_urls h ((component, fname) # rest) =
     (if component \<in> set (components h)
      then set_urls (record_call h (SetUrl component fname)) rest
      else (Inl (KeyError component), h))"

text \<open>
  \<^verbatim>\<open>write\<close>, in three parts. First the type of the dataset and the sources it
  was derived from (lines 104 to 115).
\<close>

definition stamp_sources :: "CLDFWriter \<Rightarrow> pycldf_dataset" where
  "stamp_sources w =
     (let h1 = record_call (cldf w)
                 (SetProperty ''rdf:type'' ''http://www.w3.org/ns/dcat#Distribution'')
      in if srcs w \<noteq> [] then record_call h1 (AddProvenance ''wasDerivedFrom'' (srcs w))
         else h1)"

text \<open>Last the file names and the library's own \<^verbatim>\<open>write\<close> (lines 133 to 135).\<close>

definition write_tables ::
  "env \<Rightarrow> CLDFWriter \<Rightarrow> pycldf_dataset \<Rightarrow> (string \<times> row list) list \<Rightarrow> fs
     \<Rightarrow> (exc + unit) \<times> CLDFWriter \<times> fs" where
  "write_tables env w h kw f =
     (case set_urls h (data_fnames (cldf_spec w)) of
        (Inl e, h') \<Rightarrow> (Inl e, w\<lparr>cldf := h'\<rparr>, f)
      | (Inr u, h') \<Rightarrow>
         (case cldf_write env (calls h') kw f of
            (Some e, f') \<Rightarrow> (Inl e, w\<lparr>cldf := record_call h' (Write kw)\<rparr>, f')
          | (None, f') \<Rightarrow> (Inr (), w\<lparr>cldf := record_call h' (Write kw)\<rparr>, f')))"

text \<open>
  In between, the description of the software (lines 116 to 131);
  \<^verbatim>\<open>sys.version.split()[0]\<close> raises \<^verbatim>\<open>IndexError\<close> on a version without a token.
\<close>

definition writer_write ::
  "env \<Rightarrow> CLDFWriter \<Rightarrow> (string \<times> row list) list \<Rightarrow> fs \<Rightarrow> (exc + unit) \<times> CLDFWriter \<times> fs" where
  "writer_write env w kw f =
     (case split (sys_version env) of
        [] \<Rightarrow> (Inl IndexError, w\<lparr>cldf := stamp_sources w\<rparr>, f)
      | v # rest \<Rightarrow>
         (case try_except env w [python_entry v] f of
            (Inl e, f1) \<Rightarrow> (Inl e, w\<lparr>cldf := stamp_sources w\<rparr>, f1)
          | (Inr reqs, f1) \<Rightarrow>
              write_tables env w
                (record_call (stamp_sources w) (AddProvenance ''wasGeneratedBy'' reqs)) kw f1))"

text \<open>The calls that a run has added to the dataset of a writer.\<close>

definition new_calls :: "CLDFWriter \<Rightarrow> CLDFWriter \<Rightarrow> call list" where
  "new_calls w w' = drop (length (calls (cldf w))) (calls (cldf w'))"

text \<open>
  The context manager. \<^verbatim>\<open>__enter__\<close> returns the writer; \<^verbatim>\<open>__exit__\<close> calls
  \<^verbatim>\<open>write\<close> and returns \<^verbatim>\<open>None\<close>, which is falsy: it asks for no exception
  to be suppressed.
\<close>

definition enter :: "CLDFWriter \<Rightarrow> CLDFWriter" where
  "enter w = w"

definition exit :: "env \<Rightarrow> CLDFWriter \<Rightarrow> exc option \<Rightarrow> fs \<Rightarrow> (exc + bool) \<times> CLDFWriter \<times> fs" where
  "exit env w exc_val f =
     (case writer_write env w (objects w) f of
        (Inl e, s) \<Rightarrow> (Inl e, s)
      | (Inr u, s) \<Rightarrow> (Inr False, s))"

text \<open>
  Python's \<^verbatim>\<open>with CLDFWriter(...) as writer: body\<close>, for a writer already
  constructed. The body changes the writer (its \<^verbatim>\<open>objects\<close>) and the file system,
  and returns or raises. \<^verbatim>\<open>__exit__\<close> runs either way; an exception it raises
  replaces the one of the body, and a truthy result would suppress that one.
\<close>

definition with_writer ::
  "env \<Rightarrow> CLDFWriter \<Rightarrow> (CLDFWriter \<Rightarrow> fs \<Rightarrow> (exc + unit) \<times> CLDFWriter \<times> fs) \<Rightarrow> fs
     \<Rightarrow> (exc + unit) \<times> CLDFWriter \<times> fs" where
  "with_writer env w body f =
     (case body (enter w) f of
        (r, w1, f1) \<Rightarrow>
          (case exit env w1 (case r of Inl e \<Rightarrow> Some e | Inr u \<Rightarrow> None) f1 of
             (Inl e', s) \<Rightarrow> (Inl e', s)
           | (Inr suppress, s) \<Rightarrow>
               (case r of
                  Inl e \<Rightarrow> (if suppress then (Inr (), s) else (Inl e, s))
                | Inr u \<Rightarrow> (Inr (), s))))"

section \<open>A concrete environment\<close>

text \<open>
  One installation, used to run the model: pycldf under \<^verbatim>\<open>/pkg\<close> with two
  modules, metadata that loads when the file holds \<^verbatim>\<open>{}\<close>, and a writer
  for the directory \<^verbatim>\<open>out\<close> with one catalog among its arguments.
\<close>

definition example_fs :: fs where
  "example_fs =
     [PurePath ''/'' [''pkg''] \<mapsto> Dir,
      PurePath ''/'' [''pkg'', ''modules''] \<mapsto> Dir,
      PurePath ''/'' [''pkg'', ''modules'', ''Generic-metadata.json''] \<mapsto> File ''{}'',
      PurePath [] [''bad.json''] \<mapsto> File ''no metadata'']"

definition example_env :: env where
  "example_env =
     \<lparr>get_modules = [Module ''Generic'' ''Generic'', Module ''Wordlist'' ''Wordlist''],
      in_message = (\<lambda>v. ''module must be a known module, got '' @ v),
      MD_SUFFIX = ''-metadata.json'',
      pkg_dir = PurePath ''/'' [''pkg''],
      from_metadata =
        (\<lambda>c f p. case read_file f p of
                    Inl e \<Rightarrow> Inl e
                  | Inr t \<Rightarrow> if t = ''{}'' then Inr [''ValueTable'']
                             else Inl (LibraryError ''not a metadata file'')),
      sys_version = ''3.8.10 (default, Nov 26 2021) [GCC 9.3.0]'',
      pip_freeze = Exited 0 ''attrs==19.3.0'',
      cldf_write = (\<lambda>cs kw f. (None, f))\<rparr>"

definition example_writer :: CLDFWriter where
  "example_writer =
     \<lparr>cldf_spec =
        \<lparr>module = ''Generic'',
         default_metadata_path = PurePath ''/'' [''pkg'', ''modules'', ''Generic-metadata.json''],
         metadata_fname = ''Generic-metadata.json'',
         data_fnames = [(''ValueTable'', ''values.csv'')]\<rparr>,
      objects = [(''ValueTable'', [[(''ID'', ''1'')]])],
      args = Some [(''glottolog'', Catalog [(''dc:title'', ''Glottolog'')]),
                   (''verbose'', Other ''True'')],
      dataset = Some \<lparr>repo = Some [(''dc:title'', ''Repository'')]\<rparr>,
      dir = PurePath [] [''out''],
      cldf = \<lparr>components = [''ValueTable''], calls = []\<rparr>\<rparr>"

definition example_out_fs :: fs where
  "example_out_fs =
     example_fs(PurePath [] [''out''] \<mapsto> Dir,
                PurePath [] [''out'', ''Generic-metadata.json''] \<mapsto> File ''{}'')"

text \<open>The body of a scope: it appends one row to a table, then returns or raises.\<close>

definition append_row :: "string \<Rightarrow> row \<Rightarrow> CLDFWriter \<Rightarrow> CLDFWriter" where
  "append_row t r w =
     w\<lparr>objects := (case map_of (objects w) t of
                     None \<Rightarrow> objects w @ [(t, [r])]
                   | Some rs \<Rightarrow> map (\<lambda>(k, v). if k = t then (k, v @ [r]) else (k, v)) (objects w))\<rparr>"

definition example_body_raising ::
  "CLDFWriter \<Rightarrow> fs \<Rightarrow> (exc + unit) \<times> CLDFWriter \<times> fs" where
  "example_body_raising w f =
     (Inl (ValueError ''boom''), append_row ''ValueTable'' [(''ID'', ''2'')] w, f)"

text \<open>
  Three variations of the environment: no \<^verbatim>\<open>pip\<close> executable to start, a
  \<^verbatim>\<open>pip freeze\<close> that exits with status 1, a library whose \<^verbatim>\<open>write\<close> raises.
\<close>

definition example_env_no_pip :: env where
  "example_env_no_pip = example_env\<lparr>pip_freeze := NotStarted FileNotFoundError\<rparr>"

definition example_env_pip_fails :: env where
  "example_env_pip_fails = example_env\<lparr>pip_freeze := Exited 1 []\<rparr>"

definition example_env_write_fails :: env where
  "example_env_write_fails =
     example_env\<lparr>cldf_write := (\<lambda>cs kw f. (Some (LibraryError ''cannot write''), f))\<rparr>"

text \<open>The spec and the writer that the defaults give in this environment.\<close>

definition generic_spec :: CLDFSpec where
  "generic_spec =
     \<lparr>module = ''Generic'',
      default_metadata_path = PurePath ''/'' [''pkg'', ''modules'', ''Generic-metadata.json''],
      metadata_fname = ''Generic-metadata.json'', data_fnames = []\<rparr>"

definition generic_writer :: CLDFWriter where
  "generic_writer =
     \<lparr>cldf_spec = generic_spec, objects = [], args = None, dataset = None,
      dir = PurePath [] [''out''],
      cldf = \<lparr>components = [''ValueTable''], calls = []\<rparr>\<rparr>"

section \<open>Paths used below\<close>

lemma Path_bad_json: "Path ''./bad.json'' = PurePath [] [''bad.json'']"
  by (simp add: Path_def splitroot_def)

lemma Path_out: "Path ''out'' = PurePath [] [''out'']"
  by (simp add: Path_def splitroot_def)

lemma Path_modules: "Path ''modules'' = PurePath [] [''modules'']"
  by (simp add: Path_def splitroot_def)

lemma Path_Generic_metadata:
  "Path ''Generic-metadata.json'' = PurePath [] [''Generic-metadata.json'']"
  by (simp add: Path_def splitroot_def)

lemma Path_requirements: "Path ''requirements.txt'' = PurePath [] [''requirements.txt'']"
  by (simp add: Path_def splitroot_def)

lemma requirements_txt_path:
  "requirements_txt w = PurePath (root (dir w)) (parts (dir w) @ [''requirements.txt''])"
  by (simp add: requirements_txt_def joinpath_def Path_requirements)

lemma parent_requirements_txt: "parent (requirements_txt w) = dir w"
  by (simp add: requirements_txt_path parent_def)

lemma example_MD_SUFFIX: "MD_SUFFIX example_env = ''-metadata.json''"
  by (simp add: example_env_def)

lemma example_pkg_path:
  "pkg_path example_env [''modules'', ''Generic-metadata.json'']
     = PurePath ''/'' [''pkg'', ''modules'', ''Generic-metadata.json'']"
  by (simp add: pkg_path_def example_env_def joinpath_def Path_modules Path_Generic_metadata)

lemma Path_out_deep: "Path ''out/deep'' = PurePath [] [''out'', ''deep'']"
  by (simp add: Path_def splitroot_def)

lemma example_env_fields:
  "get_modules example_env = [Module ''Generic'' ''Generic'', Module ''Wordlist'' ''Wordlist'']"
  "sys_version example_env = ''3.8.10 (default, Nov 26 2021) [GCC 9.3.0]''"
  "pip_freeze example_env = Exited 0 ''attrs==19.3.0''"
  "cldf_write example_env cs kw f = (None, f)"
  "from_metadata example_env c f p =
     (case read_file f p of
        Inl e \<Rightarrow> Inl e
      | Inr t \<Rightarrow> if t = ''{}'' then Inr [''ValueTable'']
                 else Inl (LibraryError ''not a metadata file''))"
  by (simp_all add: example_env_def)

lemma example_fs_lookups:
  "example_fs (PurePath [] [''out'']) = None"
  "example_fs (PurePath [] [''out'', ''Generic-metadata.json'']) = None"
  "example_fs (PurePath ''/'' [''pkg'', ''modules'', ''Generic-metadata.json''])
     = Some (File ''{}'')"
  by (simp_all add: example_fs_def)

lemma example_default_spec:
  "CLDFSpec_init example_env f None None None [] = Inr generic_spec"
proof -
  have g: "''Generic'' \<in> set (map module_id (get_modules example_env))"
    by (simp add: example_env_def)
  show ?thesis
    using g
    by (simp add: CLDFSpec_init_def attrs_post_init_def example_MD_SUFFIX example_pkg_path
          name_def generic_spec_def)
qed

section \<open>What the constructor of CLDFSpec returns\<close>

lemma CLDFSpec_init_post:
  assumes "CLDFSpec_init env f marg dmp mf df = Inr spec"
  shows "attrs_post_init env f (case marg of None \<Rightarrow> ''Generic'' | Some c \<Rightarrow> converter c)
           dmp mf df = Inr spec"
  using assms by (simp add: CLDFSpec_init_def Let_def split: if_splits)

lemma attrs_post_init_module:
  assumes "attrs_post_init env f m dmp mf df = Inr spec"
  shows "module spec = m"
  using assms
  by (auto simp: attrs_post_init_def Let_def split: if_splits option.splits sum.splits)

lemma attrs_post_init_path:
  assumes "attrs_post_init env f m dmp mf df = Inr spec"
  shows "default_metadata_path spec =
           (case dmp of
              Some s \<Rightarrow> if s \<noteq> [] then Path s else pkg_path env [''modules'', m @ MD_SUFFIX env]
            | None \<Rightarrow> pkg_path env [''modules'', m @ MD_SUFFIX env])"
  using assms
  by (auto simp: attrs_post_init_def Let_def split: if_splits option.splits sum.splits)

lemma attrs_post_init_fname:
  assumes "attrs_post_init env f m dmp mf df = Inr spec" and "\<not> truthy mf"
  shows "metadata_fname spec = name (default_metadata_path spec)"
  using assms
  by (auto simp: attrs_post_init_def Let_def split: if_splits option.splits sum.splits)

section \<open>Properties of CLDFSpec\<close>

text \<open>
  Claim C2. Constructing a \<^verbatim>\<open>CLDFSpec\<close> whose module identifier (after the
  converter) is not among the identifiers of the registry fails: the validator
  raises \<^verbatim>\<open>ValueError\<close>, the exception class the code uses for configuration
  errors, whatever the other arguments are.
\<close>

theorem unknown_module_rejected:
  assumes "converter c \<notin> set (map module_id (get_modules env))"
  shows "CLDFSpec_init env f (Some c) dmp mf df = Inl (ValueError (in_message env (converter c)))"
  using assms by (simp add: CLDFSpec_init_def)

theorem unknown_module_rejected_witness:
  "converter (ModuleName ''Bogus'') \<notin> set (map module_id (get_modules example_env))
   \<and> CLDFSpec_init example_env example_fs (Some (ModuleName ''Bogus'')) None None []
       = Inl (ValueError ''module must be a known module, got Bogus'')"
proof -
  have h: "converter (ModuleName ''Bogus'') \<notin> set (map module_id (get_modules example_env))"
    by (simp add: example_env_def)
  show ?thesis
    using h unknown_module_rejected [OF h, of example_fs None None "[]"]
    by (simp add: example_env_def)
qed

text \<open>
  Claim C3. When a \<^verbatim>\<open>CLDFSpec\<close> is constructed for a known module with a
  default metadata path (a non-empty string) that the library fails to load,
  whatever exception the load raised, the constructor raises \<^verbatim>\<open>ValueError\<close>
  with the message \<^verbatim>\<open>invalid default metadata: \<close> followed by the path.
\<close>

theorem invalid_default_metadata:
  assumes "(case marg of None \<Rightarrow> ''Generic'' | Some c \<Rightarrow> converter c)
             \<in> set (map module_id (get_modules env))"
    and "s \<noteq> []"
    and "from_metadata env ''Dataset'' f (Path s) = Inl e"
  shows "CLDFSpec_init env f marg (Some s) mf df
           = Inl (ValueError (''invalid default metadata: '' @ str (Path s)))"
  using assms by (simp add: CLDFSpec_init_def attrs_post_init_def Let_def)

theorem invalid_default_metadata_witness:
  "(case Some (DatasetClass ''Wordlist'') of None \<Rightarrow> ''Generic'' | Some c \<Rightarrow> converter c)
      \<in> set (map module_id (get_modules example_env))
   \<and> ''./bad.json'' \<noteq> []
   \<and> from_metadata example_env ''Dataset'' example_fs (Path ''./bad.json'')
        = Inl (LibraryError ''not a metadata file'')
   \<and> CLDFSpec_init example_env example_fs (Some (DatasetClass ''Wordlist'')) (Some ''./bad.json'')
        None [] = Inl (ValueError ''invalid default metadata: bad.json'')"
proof -
  have h1: "(case Some (DatasetClass ''Wordlist'') of None \<Rightarrow> ''Generic'' | Some c \<Rightarrow> converter c)
      \<in> set (map module_id (get_modules example_env))"
    by (simp add: example_env_def)
  have h2: "''./bad.json'' \<noteq> []" by simp
  have h3: "from_metadata example_env ''Dataset'' example_fs (Path ''./bad.json'')
        = Inl (LibraryError ''not a metadata file'')"
    by (simp add: example_env_def example_fs_def Path_bad_json read_file_def stat_def)
  show ?thesis
    using h1 h3 invalid_default_metadata [OF h1 h2 h3, of None "[]"]
    by (simp add: Path_bad_json str_def)
qed

text \<open>
  Claim C8. A \<^verbatim>\<open>CLDFSpec\<close> constructed without a metadata file name
  (\<^verbatim>\<open>None\<close>, or the empty string) has, once constructed, the base name of its
  resolved default metadata path as its metadata file name; that path is the
  one the caller gave, or the packaged template of the module.
\<close>

theorem metadata_fname_default:
  assumes "\<not> truthy mf"
    and "CLDFSpec_init env f marg dmp mf df = Inr spec"
  shows "metadata_fname spec = name (default_metadata_path spec)
         \<and> default_metadata_path spec =
             (case dmp of
                Some s \<Rightarrow> if s \<noteq> [] then Path s
                          else pkg_path env [''modules'', module spec @ MD_SUFFIX env]
              | None \<Rightarrow> pkg_path env [''modules'', module spec @ MD_SUFFIX env])"
proof -
  have post: "attrs_post_init env f (case marg of None \<Rightarrow> ''Generic'' | Some c \<Rightarrow> converter c)
                dmp mf df = Inr spec"
    using assms(2) by (rule CLDFSpec_init_post)
  have m: "module spec = (case marg of None \<Rightarrow> ''Generic'' | Some c \<Rightarrow> converter c)"
    using post by (rule attrs_post_init_module)
  have fname: "metadata_fname spec = name (default_metadata_path spec)"
    using post assms(1) by (rule attrs_post_init_fname)
  have resolved: "default_metadata_path spec =
             (case dmp of
                Some s \<Rightarrow> if s \<noteq> [] then Path s
                          else pkg_path env [''modules'', module spec @ MD_SUFFIX env]
              | None \<Rightarrow> pkg_path env [''modules'', module spec @ MD_SUFFIX env])"
    unfolding m using post by (rule attrs_post_init_path)
  show ?thesis
    using fname resolved by (rule conjI)
qed

theorem metadata_fname_default_witness:
  "\<not> truthy None
   \<and> CLDFSpec_init example_env example_fs None None None []
       = Inr \<lparr>module = ''Generic'',
              default_metadata_path =
                PurePath ''/'' [''pkg'', ''modules'', ''Generic-metadata.json''],
              metadata_fname = ''Generic-metadata.json'', data_fnames = []\<rparr>
   \<and> metadata_fname \<lparr>module = ''Generic'',
              default_metadata_path =
                PurePath ''/'' [''pkg'', ''modules'', ''Generic-metadata.json''],
              metadata_fname = ''Generic-metadata.json'', data_fnames = []\<rparr>
       = name (PurePath ''/'' [''pkg'', ''modules'', ''Generic-metadata.json''])"
proof -
  have h1: "\<not> truthy None" by simp
  have g: "''Generic'' \<in> set (map module_id (get_modules example_env))"
    by (simp add: example_env_def)
  have h2: "CLDFSpec_init example_env example_fs None None None []
       = Inr \<lparr>module = ''Generic'',
              default_metadata_path =
                PurePath ''/'' [''pkg'', ''modules'', ''Generic-metadata.json''],
              metadata_fname = ''Generic-metadata.json'', data_fnames = []\<rparr>"
    using g
    by (simp add: CLDFSpec_init_def attrs_post_init_def example_MD_SUFFIX example_pkg_path
          name_def)
  show ?thesis
    using h1 h2 metadata_fname_default [OF h1 h2]
    by (simp add: example_MD_SUFFIX example_pkg_path name_def)
qed

section \<open>What the constructor of CLDFWriter does to the file system\<close>

lemma open_wb_result:
  assumes "open_wb f p = Inr g"
  shows "g = f(p \<mapsto> File []) \<and> stat f p \<noteq> Some Dir"
  using assms
  by (auto simp: open_wb_def split: option.splits node.splits)

lemma shutil_copy_is_dir:
  assumes "shutil_copy f src dst = Inr f'"
  shows "is_dir f' p = is_dir f p"
proof -
  obtain d c where f': "f' = f(d \<mapsto> File c)" and nd: "stat f d \<noteq> Some Dir"
    using assms
    by (auto simp: shutil_copy_def Let_def split: if_splits sum.splits dest!: open_wb_result)
  show ?thesis
    using nd by (auto simp: f' is_dir_def stat_def split: if_splits)
qed

lemma shutil_copy_exists:
  assumes "shutil_copy f src dst = Inr f'" and "exists f p"
  shows "exists f' p"
proof -
  obtain d c where f': "f' = f(d \<mapsto> File c)"
    using assms(1)
    by (auto simp: shutil_copy_def Let_def split: if_splits sum.splits dest!: open_wb_result)
  show ?thesis
    using assms(2) by (auto simp: f' exists_def stat_def split: if_splits)
qed

lemma mkdir_is_dir:
  assumes "mkdir f p = Inr f1"
  shows "is_dir f1 p \<and> (\<forall>q. q \<noteq> p \<longrightarrow> is_dir f1 q = is_dir f q)"
  using assms
  by (auto simp: mkdir_def is_dir_def stat_def exists_def split: if_splits option.splits node.splits)

lemma CLDFWriter_init_dirs:
  assumes "(case spec of Some s \<Rightarrow> Inr s | None \<Rightarrow> CLDFSpec_init env f None None None []) = Inr sp"
    and "(if \<not> exists f (Path outdir) then mkdir f (Path outdir) else Inr f) = Inr f1"
  shows "is_dir (snd (CLDFWriter_init env f outdir spec a ds)) p = is_dir f1 p"
  using assms
  by (auto simp: CLDFWriter_init_def Let_def shutil_copy_is_dir
           split: sum.splits option.splits)

lemma CLDFWriter_init_exists:
  assumes "(case spec of Some s \<Rightarrow> Inr s | None \<Rightarrow> CLDFSpec_init env f None None None []) = Inr sp"
    and "exists f (Path outdir)"
  shows "exists (snd (CLDFWriter_init env f outdir spec a ds)) (Path outdir)"
  using assms
  by (auto simp: CLDFWriter_init_def Let_def shutil_copy_exists
           split: sum.splits option.splits)

lemma CLDFWriter_init_mkdir_fails:
  assumes "(case spec of Some s \<Rightarrow> Inr s | None \<Rightarrow> CLDFSpec_init env f None None None []) = Inr sp"
    and "\<not> exists f (Path outdir)" and "mkdir f (Path outdir) = Inl e"
  shows "CLDFWriter_init env f outdir spec a ds = (Inl e, f)"
  using assms
  by (simp add: CLDFWriter_init_def Let_def)

lemma CLDFWriter_init_result:
  assumes "CLDFWriter_init env f outdir spec a ds = (Inr w, f')"
  shows "(case spec of Some s \<Rightarrow> Inr s | None \<Rightarrow> CLDFSpec_init env f None None None [])
           = Inr (cldf_spec w)
         \<and> dir w = Path outdir
         \<and> (\<exists>c. cls env (cldf_spec w) = Some c
              \<and> from_metadata env c f' (joinpath (Path outdir) (metadata_fname (cldf_spec w)))
                  = Inr (components (cldf w)))"
  using assms
  by (auto simp: CLDFWriter_init_def Let_def split: sum.splits option.splits if_splits)

lemma example_init:
  "CLDFWriter_init example_env example_fs ''out'' None None None
     = (Inr generic_writer, example_out_fs)"
  by (simp add: CLDFWriter_init_def example_default_spec Path_out exists_def stat_def mkdir_def
        parent_def joinpath_def Path_Generic_metadata shutil_copy_def is_dir_def read_file_def
        open_wb_def name_def cls_def example_env_fields example_fs_lookups example_out_fs_def
        Let_def generic_spec_def generic_writer_def)

section \<open>Properties of the constructor of CLDFWriter\<close>

text \<open>
  Claim C7. Once the spec is there (given, or the default one constructed), the
  constructor of \<^verbatim>\<open>CLDFWriter\<close> treats the output directory as follows.
  \<^item> Absent, with its parent a directory: it is created, and it is the only
    directory that construction adds, whether the later steps succeed or not.
  \<^item> Absent, with its parent absent too: construction fails with
    \<^verbatim>\<open>FileNotFoundError\<close>, an I/O error, and the file system is as before.
  \<^item> Present: it stays, and the directories are the same as before.
\<close>

theorem outdir_one_level:
  assumes "(case spec of Some s \<Rightarrow> Inr s | None \<Rightarrow> CLDFSpec_init env f None None None []) = Inr sp"
  shows "(\<not> exists f (Path outdir) \<and> is_dir f (parent (Path outdir)) \<longrightarrow>
            is_dir (snd (CLDFWriter_init env f outdir spec a ds)) (Path outdir)
            \<and> (\<forall>p. p \<noteq> Path outdir \<longrightarrow>
                  is_dir (snd (CLDFWriter_init env f outdir spec a ds)) p = is_dir f p))
       \<and> (\<not> exists f (Path outdir) \<and> \<not> exists f (parent (Path outdir)) \<longrightarrow>
            CLDFWriter_init env f outdir spec a ds = (Inl (OSError FileNotFoundError), f))
       \<and> (exists f (Path outdir) \<longrightarrow>
            exists (snd (CLDFWriter_init env f outdir spec a ds)) (Path outdir)
            \<and> (\<forall>p. is_dir (snd (CLDFWriter_init env f outdir spec a ds)) p = is_dir f p))"
proof (intro conjI impI)
  assume h: "\<not> exists f (Path outdir) \<and> is_dir f (parent (Path outdir))"
  then have mk: "mkdir f (Path outdir) = Inr (f(Path outdir \<mapsto> Dir))"
    by (simp add: mkdir_def is_dir_def)
  with h have step: "(if \<not> exists f (Path outdir) then mkdir f (Path outdir) else Inr f)
                       = Inr (f(Path outdir \<mapsto> Dir))"
    by simp
  show "is_dir (snd (CLDFWriter_init env f outdir spec a ds)) (Path outdir)"
    using CLDFWriter_init_dirs [OF assms step] mkdir_is_dir [OF mk] by simp
  show "\<forall>p. p \<noteq> Path outdir \<longrightarrow>
          is_dir (snd (CLDFWriter_init env f outdir spec a ds)) p = is_dir f p"
    using CLDFWriter_init_dirs [OF assms step] mkdir_is_dir [OF mk] by simp
next
  assume h: "\<not> exists f (Path outdir) \<and> \<not> exists f (parent (Path outdir))"
  then have "mkdir f (Path outdir) = Inl (OSError FileNotFoundError)"
    by (simp add: mkdir_def exists_def)
  with h show "CLDFWriter_init env f outdir spec a ds = (Inl (OSError FileNotFoundError), f)"
    using CLDFWriter_init_mkdir_fails [OF assms] by simp
next
  assume h: "exists f (Path outdir)"
  then have step: "(if \<not> exists f (Path outdir) then mkdir f (Path outdir) else Inr f) = Inr f"
    by simp
  show "\<forall>p. is_dir (snd (CLDFWriter_init env f outdir spec a ds)) p = is_dir f p"
    using CLDFWriter_init_dirs [OF assms step] by simp
  show "exists (snd (CLDFWriter_init env f outdir spec a ds)) (Path outdir)"
    using CLDFWriter_init_exists [OF assms h] .
qed

theorem outdir_one_level_witness:
  "(\<not> exists example_fs (Path ''out'') \<and> is_dir example_fs (parent (Path ''out''))
      \<and> is_dir (snd (CLDFWriter_init example_env example_fs ''out'' None None None)) (Path ''out''))
   \<and> (\<not> exists example_fs (Path ''out/deep'') \<and> \<not> exists example_fs (parent (Path ''out/deep''))
      \<and> CLDFWriter_init example_env example_fs ''out/deep'' None None None
           = (Inl (OSError FileNotFoundError), example_fs))
   \<and> (exists example_out_fs (Path ''out'')
      \<and> is_dir (snd (CLDFWriter_init example_env example_out_fs ''out'' None None None))
           (Path ''out''))"
proof -
  have sp1: "(case None of Some s \<Rightarrow> Inr s
              | None \<Rightarrow> CLDFSpec_init example_env example_fs None None None [])
               = Inr generic_spec"
    by (simp add: example_default_spec)
  have sp2: "(case None of Some s \<Rightarrow> Inr s
              | None \<Rightarrow> CLDFSpec_init example_env example_out_fs None None None [])
               = Inr generic_spec"
    by (simp add: example_default_spec)
  have a1: "\<not> exists example_fs (Path ''out'')"
    by (simp add: Path_out exists_def stat_def example_fs_def)
  have a2: "is_dir example_fs (parent (Path ''out''))"
    by (simp add: Path_out parent_def is_dir_def stat_def)
  have b1: "\<not> exists example_fs (Path ''out/deep'')"
    by (simp add: Path_out_deep exists_def stat_def example_fs_def)
  have b2: "\<not> exists example_fs (parent (Path ''out/deep''))"
    by (simp add: Path_out_deep parent_def exists_def stat_def example_fs_def)
  have c1: "exists example_out_fs (Path ''out'')"
    by (simp add: Path_out exists_def stat_def example_out_fs_def)
  have c2: "is_dir example_out_fs (Path ''out'')"
    by (simp add: Path_out is_dir_def stat_def example_out_fs_def)
  show ?thesis
    using a1 a2 b1 b2 c1 c2
      outdir_one_level [OF sp1, of "''out''" None None]
      outdir_one_level [OF sp1, of "''out/deep''" None None]
      outdir_one_level [OF sp2, of "''out''" None None]
    by simp
qed

text \<open>
  Claim C10. A \<^verbatim>\<open>CLDFSpec\<close> constructed without a module argument has the module
  \<^verbatim>\<open>Generic\<close>; a \<^verbatim>\<open>CLDFWriter\<close> constructed without a spec therefore has a spec
  of that module, and its dataset is the one that the class registered for
  \<^verbatim>\<open>Generic\<close> loads from the copied metadata.
\<close>

theorem default_module_generic:
  "(\<forall>spec. CLDFSpec_init env f None dmp mf df = Inr spec \<longrightarrow> module spec = ''Generic'')
   \<and> (\<forall>w f'. CLDFWriter_init env f outdir None a ds = (Inr w, f') \<longrightarrow>
         module (cldf_spec w) = ''Generic''
         \<and> (\<exists>c. find_cls (get_modules env) ''Generic'' = Some c
              \<and> from_metadata env c f' (joinpath (dir w) (metadata_fname (cldf_spec w)))
                  = Inr (components (cldf w))))"
proof (intro conjI allI impI)
  fix spec
  assume "CLDFSpec_init env f None dmp mf df = Inr spec"
  then have "attrs_post_init env f ''Generic'' dmp mf df = Inr spec"
    using CLDFSpec_init_post [of env f None dmp mf df spec] by simp
  then show "module spec = ''Generic''"
    by (rule attrs_post_init_module)
next
  fix w f'
  assume init: "CLDFWriter_init env f outdir None a ds = (Inr w, f')"
  note r = CLDFWriter_init_result [OF init]
  from r have "CLDFSpec_init env f None None None [] = Inr (cldf_spec w)"
    by simp
  then have "attrs_post_init env f ''Generic'' None None [] = Inr (cldf_spec w)"
    using CLDFSpec_init_post [of env f None None None "[]" "cldf_spec w"] by simp
  then have m: "module (cldf_spec w) = ''Generic''"
    by (rule attrs_post_init_module)
  show "module (cldf_spec w) = ''Generic''" by (rule m)
  show "\<exists>c. find_cls (get_modules env) ''Generic'' = Some c
              \<and> from_metadata env c f' (joinpath (dir w) (metadata_fname (cldf_spec w)))
                  = Inr (components (cldf w))"
    using r m by (auto simp: cls_def)
qed

theorem default_module_generic_witness:
  "CLDFSpec_init example_env example_fs None None None [] = Inr generic_spec
   \<and> module generic_spec = ''Generic''
   \<and> CLDFWriter_init example_env example_fs ''out'' None None None
       = (Inr generic_writer, example_out_fs)
   \<and> module (cldf_spec generic_writer) = ''Generic''
   \<and> find_cls (get_modules example_env) ''Generic'' = Some ''Generic''"
  using default_module_generic [of example_env example_fs None None "[]" "''out''" None None]
    example_default_spec [of example_fs] example_init
  by (simp add: example_env_fields generic_spec_def generic_writer_def)

section \<open>What \<^verbatim>\<open>write\<close> does\<close>

lemma open_requirements_txt:
  assumes "is_dir f (dir w)" and "\<not> is_dir f (requirements_txt w)"
  shows "open_wb f (requirements_txt w) = Inr (f(requirements_txt w \<mapsto> File []))"
  using assms
  by (auto simp: open_wb_def is_dir_def parent_requirements_txt split: option.splits node.splits)

lemma try_except_exited:
  assumes "pip_freeze env = Exited rc out"
    and "is_dir f (dir w)" and "\<not> is_dir f (requirements_txt w)"
  shows "try_except env w reqs f
           = (Inr (reqs @ (if rc = 0 then [packages_entry] else [])),
              f(requirements_txt w \<mapsto> File out))"
  using assms(1) open_requirements_txt [OF assms(2,3)]
  by (simp add: try_except_def try_body_def run_pip_freeze_def)

lemma try_except_not_started:
  assumes "pip_freeze env = NotStarted e"
    and "is_dir f (dir w)" and "\<not> is_dir f (requirements_txt w)"
  shows "try_except env w reqs f = (Inl (OSError e), f(requirements_txt w \<mapsto> File []))"
  using assms(1) open_requirements_txt [OF assms(2,3)]
  by (simp add: try_except_def try_body_def run_pip_freeze_def)

lemma record_call_simps:
  "calls (record_call h c) = calls h @ [c]"
  "components (record_call h c) = components h"
  by (simp_all add: record_call_def)

lemma set_urls_calls:
  "\<exists>us. calls (snd (set_urls h xs)) = calls h @ us
        \<and> (\<forall>c \<in> set us. \<exists>a b. c = SetUrl a b)"
proof (induction xs arbitrary: h)
  case Nil
  then show ?case by simp
next
  case (Cons x xs)
  obtain k n where x: "x = (k, n)" by (cases x)
  show ?case
  proof (cases "k \<in> set (components h)")
    case True
    from Cons.IH [of "record_call h (SetUrl k n)"]
    obtain us where "calls (snd (set_urls (record_call h (SetUrl k n)) xs))
                       = calls (record_call h (SetUrl k n)) @ us"
      and "\<forall>c \<in> set us. \<exists>a b. c = SetUrl a b"
      by blast
    then show ?thesis
      using True x by (intro exI [of _ "SetUrl k n # us"]) (simp add: record_call_simps)
  next
    case False
    then show ?thesis using x by simp
  qed
qed

lemma set_urls_ok:
  assumes "set (map fst xs) \<subseteq> set (components h)"
  shows "fst (set_urls h xs) = Inr ()"
  using assms
proof (induction xs arbitrary: h)
  case Nil
  then show ?case by simp
next
  case (Cons x xs)
  obtain k n where x: "x = (k, n)" by (cases x)
  from Cons.prems x have k: "k \<in> set (components h)"
    and rest: "set (map fst xs) \<subseteq> set (components (record_call h (SetUrl k n)))"
    by (simp_all add: record_call_simps)
  show ?case
    using k Cons.IH [OF rest] x by simp
qed

lemma write_tables_calls:
  "\<exists>us. calls (cldf (fst (snd (write_tables env w h kw f)))) = calls h @ us
        \<and> (\<forall>c \<in> set us. (\<exists>a b. c = SetUrl a b) \<or> c = Write kw)"
proof -
  obtain r h' where s: "set_urls h (data_fnames (cldf_spec w)) = (r, h')"
    by (cases "set_urls h (data_fnames (cldf_spec w))")
  from set_urls_calls [of h "data_fnames (cldf_spec w)"] s
  obtain us where us: "calls h' = calls h @ us" "\<forall>c \<in> set us. \<exists>a b. c = SetUrl a b"
    by auto
  show ?thesis
  proof (cases r)
    case (Inl e)
    then show ?thesis
      using s us by (intro exI [of _ us]) (simp add: write_tables_def)
  next
    case (Inr u)
    then show ?thesis
      using s us
      by (intro exI [of _ "us @ [Write kw]"])
         (auto simp: write_tables_def record_call_simps split: prod.splits option.splits)
  qed
qed

lemma write_tables_ok:
  assumes "set (map fst (data_fnames (cldf_spec w))) \<subseteq> set (components h)"
    and "\<forall>cs g. fst (cldf_write env cs kw g) = None"
  shows "fst (write_tables env w h kw f) = Inr ()"
proof -
  obtain h' where s: "set_urls h (data_fnames (cldf_spec w)) = (Inr (), h')"
    using set_urls_ok [OF assms(1)] by (cases "set_urls h (data_fnames (cldf_spec w))") simp
  obtain f' where "cldf_write env (calls h') kw f = (None, f')"
    using assms(2) by (cases "cldf_write env (calls h') kw f") (metis fst_conv)
  then show ?thesis
    using s by (simp add: write_tables_def)
qed


lemma stamp_sources_calls:
  "calls (stamp_sources w)
     = calls (cldf w)
       @ SetProperty ''rdf:type'' ''http://www.w3.org/ns/dcat#Distribution''
       # (if srcs w \<noteq> [] then [AddProvenance ''wasDerivedFrom'' (srcs w)] else [])"
  by (simp add: stamp_sources_def Let_def record_call_simps)

lemma stamp_sources_components: "components (stamp_sources w) = components (cldf w)"
  by (simp add: stamp_sources_def Let_def record_call_simps)

lemma writer_write_calls:
  "\<exists>rest. calls (cldf (fst (snd (writer_write env w kw f)))) = calls (stamp_sources w) @ rest
          \<and> (\<forall>c \<in> set rest. (\<exists>r. c = AddProvenance ''wasGeneratedBy'' r)
                              \<or> (\<exists>a b. c = SetUrl a b) \<or> c = Write kw)"
proof (cases "split (sys_version env)")
  case Nil
  then show ?thesis by (simp add: writer_write_def)
next
  case (Cons v rest)
  obtain r f1 where t: "try_except env w [python_entry v] f = (r, f1)"
    by (cases "try_except env w [python_entry v] f")
  show ?thesis
  proof (cases r)
    case (Inl e)
    then show ?thesis using Cons t by (simp add: writer_write_def)
  next
    case (Inr reqs)
    let ?h = "record_call (stamp_sources w) (AddProvenance ''wasGeneratedBy'' reqs)"
    from write_tables_calls [of env w ?h kw f1]
    obtain us where us: "calls (cldf (fst (snd (write_tables env w ?h kw f1)))) = calls ?h @ us"
      "\<forall>c \<in> set us. (\<exists>a b. c = SetUrl a b) \<or> c = Write kw"
      by blast
    have w: "writer_write env w kw f = write_tables env w ?h kw f1"
      using Cons t Inr by (simp add: writer_write_def)
    show ?thesis
      using us
      by (intro exI [of _ "AddProvenance ''wasGeneratedBy'' reqs # us"])
         (auto simp: w record_call_simps)
  qed
qed

lemma writer_write_exited:
  assumes "split (sys_version env) = v # rest"
    and "pip_freeze env = Exited rc out"
    and "is_dir f (dir w)" and "\<not> is_dir f (requirements_txt w)"
  shows "writer_write env w kw f
           = write_tables env w
               (record_call (stamp_sources w)
                  (AddProvenance ''wasGeneratedBy''
                     (python_entry v # (if rc = 0 then [packages_entry] else []))))
               kw (f(requirements_txt w \<mapsto> File out))"
  using assms(1) try_except_exited [OF assms(2,3,4), of "[python_entry v]"]
  by (simp add: writer_write_def)

lemma writer_write_not_started:
  assumes "split (sys_version env) = v # rest"
    and "pip_freeze env = NotStarted e"
    and "is_dir f (dir w)" and "\<not> is_dir f (requirements_txt w)"
  shows "writer_write env w kw f
           = (Inl (OSError e), w\<lparr>cldf := stamp_sources w\<rparr>, f(requirements_txt w \<mapsto> File []))"
  using assms(1) try_except_not_started [OF assms(2,3,4), of "[python_entry v]"]
  by (simp add: writer_write_def)

lemma catalog_records_eq: "catalog_records vs = [j. Catalog j \<leftarrow> vs]"
proof (induction vs)
  case Nil
  then show ?case by simp
next
  case (Cons v vs)
  then show ?case by (cases v) simp_all
qed

text \<open>
  A command that starts and exits, with whatever status: one \<^verbatim>\<open>wasGeneratedBy\<close>
  list is recorded, the entry of the runtime first and the entry of the packages
  after it when the status is zero; and \<^verbatim>\<open>write\<close> returns normally when the
  components of \<^verbatim>\<open>data_fnames\<close> are in the dataset and the library's own
  \<^verbatim>\<open>write\<close> does not raise.
\<close>

lemma writer_write_generated_by:
  assumes "split (sys_version env) = v # rest"
    and "pip_freeze env = Exited rc out"
    and "is_dir f (dir w)" and "\<not> is_dir f (requirements_txt w)"
  shows "AddProvenance ''wasGeneratedBy'' r
           \<in> set (new_calls w (fst (snd (writer_write env w kw f))))
         \<longleftrightarrow> r = python_entry v # (if rc = 0 then [packages_entry] else [])"
proof -
  let ?reqs = "python_entry v # (if rc = 0 then [packages_entry] else [])"
  let ?h = "record_call (stamp_sources w) (AddProvenance ''wasGeneratedBy'' ?reqs)"
  let ?f = "f(requirements_txt w \<mapsto> File out)"
  have w: "writer_write env w kw f = write_tables env w ?h kw ?f"
    using assms by (rule writer_write_exited)
  from write_tables_calls [of env w ?h kw ?f]
  obtain us where us: "calls (cldf (fst (snd (write_tables env w ?h kw ?f)))) = calls ?h @ us"
    "\<forall>c \<in> set us. (\<exists>a b. c = SetUrl a b) \<or> c = Write kw"
    by blast
  have new: "new_calls w (fst (snd (writer_write env w kw f)))
               = SetProperty ''rdf:type'' ''http://www.w3.org/ns/dcat#Distribution''
                 # (if srcs w \<noteq> [] then [AddProvenance ''wasDerivedFrom'' (srcs w)] else [])
                 @ AddProvenance ''wasGeneratedBy'' ?reqs # us"
    by (simp add: new_calls_def w us(1) record_call_simps stamp_sources_calls)
  have "AddProvenance ''wasGeneratedBy'' r \<notin> set us"
    using us(2) by auto
  then show ?thesis
    by (auto simp: new)
qed

lemma writer_write_completes:
  assumes "split (sys_version env) = v # rest"
    and "pip_freeze env = Exited rc out"
    and "is_dir f (dir w)" and "\<not> is_dir f (requirements_txt w)"
    and "set (map fst (data_fnames (cldf_spec w))) \<subseteq> set (components (cldf w))"
    and "\<forall>cs g. fst (cldf_write env cs kw g) = None"
  shows "fst (writer_write env w kw f) = Inr ()"
proof -
  let ?reqs = "python_entry v # (if rc = 0 then [packages_entry] else [])"
  let ?h = "record_call (stamp_sources w) (AddProvenance ''wasGeneratedBy'' ?reqs)"
  have w: "writer_write env w kw f
             = write_tables env w ?h kw (f(requirements_txt w \<mapsto> File out))"
    using assms(1-4) by (rule writer_write_exited)
  have "set (map fst (data_fnames (cldf_spec w))) \<subseteq> set (components ?h)"
    using assms(5) by (simp add: record_call_simps stamp_sources_components)
  then show ?thesis
    unfolding w using assms(6) by (rule write_tables_ok)
qed


lemma with_writer_eq:
  assumes "body w f = (r, w1, f1)"
  shows "with_writer env w body f
           = (case writer_write env w1 (objects w1) f1 of
                (Inl e', s) \<Rightarrow> (Inl e', s)
              | (Inr u, s) \<Rightarrow> (r, s))"
  using assms
  by (auto simp: with_writer_def enter_def exit_def split: prod.splits sum.splits)

lemma example_split:
  "split ''3.8.10 (default, Nov 26 2021) [GCC 9.3.0]''
     = [''3.8.10'', ''(default,'', ''Nov'', ''26'', ''2021)'', ''[GCC'', ''9.3.0]'']"
  by (simp add: split_def isspace_def)

lemma example_versions:
  "split (sys_version example_env) = ''3.8.10'' # [''(default,'', ''Nov'', ''26'', ''2021)'', ''[GCC'', ''9.3.0]'']"
  "split (sys_version example_env_no_pip) = ''3.8.10'' # [''(default,'', ''Nov'', ''26'', ''2021)'', ''[GCC'', ''9.3.0]'']"
  "split (sys_version example_env_pip_fails) = ''3.8.10'' # [''(default,'', ''Nov'', ''26'', ''2021)'', ''[GCC'', ''9.3.0]'']"
  "split (sys_version example_env_write_fails) = ''3.8.10'' # [''(default,'', ''Nov'', ''26'', ''2021)'', ''[GCC'', ''9.3.0]'']"
  by (simp_all add: example_env_no_pip_def example_env_pip_fails_def
        example_env_write_fails_def example_env_fields example_split)

lemma example_pips:
  "pip_freeze example_env_no_pip = NotStarted FileNotFoundError"
  "pip_freeze example_env_pip_fails = Exited 1 []"
  "pip_freeze example_env_write_fails = Exited 0 ''attrs==19.3.0''"
  by (simp_all add: example_env_no_pip_def example_env_pip_fails_def
        example_env_write_fails_def example_env_fields)

lemma example_cldf_writes:
  "cldf_write example_env_pip_fails cs kw f = (None, f)"
  "cldf_write example_env_write_fails cs kw f = (Some (LibraryError ''cannot write''), f)"
  by (simp_all add: example_env_pip_fails_def example_env_write_fails_def example_env_fields)

lemma example_writer_fields:
  "dir example_writer = PurePath [] [''out'']"
  "requirements_txt example_writer = PurePath [] [''out'', ''requirements.txt'']"
  "data_fnames (cldf_spec example_writer) = [(''ValueTable'', ''values.csv'')]"
  "components (cldf example_writer) = [''ValueTable'']"
  "calls (cldf example_writer) = []"
  "objects example_writer = [(''ValueTable'', [[(''ID'', ''1'')]])]"
  "srcs example_writer = [[(''dc:title'', ''Repository'')], [(''dc:title'', ''Glottolog'')]]"
  by (simp_all add: example_writer_def requirements_txt_path srcs_def)

lemma example_out_dir:
  "is_dir example_out_fs (dir example_writer)"
  "\<not> is_dir example_out_fs (requirements_txt example_writer)"
  by (simp_all add: example_writer_fields is_dir_def stat_def example_out_fs_def example_fs_def)

lemma example_appended_fields:
  "dir (append_row ''ValueTable'' [(''ID'', ''2'')] example_writer) = dir example_writer"
  "requirements_txt (append_row ''ValueTable'' [(''ID'', ''2'')] example_writer)
     = requirements_txt example_writer"
  "cldf_spec (append_row ''ValueTable'' [(''ID'', ''2'')] example_writer)
     = cldf_spec example_writer"
  "cldf (append_row ''ValueTable'' [(''ID'', ''2'')] example_writer) = cldf example_writer"
  "srcs (append_row ''ValueTable'' [(''ID'', ''2'')] example_writer) = srcs example_writer"
  "objects (append_row ''ValueTable'' [(''ID'', ''2'')] example_writer)
     = [(''ValueTable'', [[(''ID'', ''1'')], [(''ID'', ''2'')]])]"
  by (simp_all add: append_row_def requirements_txt_def srcs_def example_writer_def)


lemma example_appended_dir:
  "is_dir example_out_fs (dir (append_row ''ValueTable'' [(''ID'', ''2'')] example_writer))"
  "\<not> is_dir example_out_fs
       (requirements_txt (append_row ''ValueTable'' [(''ID'', ''2'')] example_writer))"
  by (simp_all add: example_appended_fields example_out_dir)

lemma example_body:
  "example_body_raising example_writer example_out_fs
     = (Inl (ValueError ''boom''),
        append_row ''ValueTable'' [(''ID'', ''2'')] example_writer, example_out_fs)"
  by (simp add: example_body_raising_def)

lemma example_write_fails:
  "fst (writer_write example_env_write_fails
          (append_row ''ValueTable'' [(''ID'', ''2'')] example_writer)
          (objects (append_row ''ValueTable'' [(''ID'', ''2'')] example_writer)) example_out_fs)
     = Inl (LibraryError ''cannot write'')"
  unfolding writer_write_exited [OF example_versions(4) example_pips(3) example_appended_dir]
  by (simp add: write_tables_def example_appended_fields example_writer_fields
        record_call_simps stamp_sources_components example_cldf_writes)

lemma example_write_succeeds:
  "fst (writer_write example_env
          (append_row ''ValueTable'' [(''ID'', ''2'')] example_writer)
          (objects (append_row ''ValueTable'' [(''ID'', ''2'')] example_writer)) example_out_fs)
     = Inr ()"
  using example_versions(1) example_env_fields(3) example_appended_dir
  by (rule writer_write_completes)
     (simp_all add: example_appended_fields example_writer_fields example_env_fields)

text \<open>The run in which \<^verbatim>\<open>pip freeze\<close> exits with status 1.\<close>

lemma example_pip_fails_completes:
  "fst (writer_write example_env_pip_fails example_writer (objects example_writer)
          example_out_fs) = Inr ()"
  using example_versions(3) example_pips(2) example_out_dir
  by (rule writer_write_completes)
     (simp_all add: example_writer_fields example_cldf_writes)

lemma example_pip_fails_calls:
  "new_calls example_writer
     (fst (snd (writer_write example_env_pip_fails example_writer (objects example_writer)
                  example_out_fs)))
   = [SetProperty ''rdf:type'' ''http://www.w3.org/ns/dcat#Distribution'',
      AddProvenance ''wasDerivedFrom''
        [[(''dc:title'', ''Repository'')], [(''dc:title'', ''Glottolog'')]],
      AddProvenance ''wasGeneratedBy''
        [[(''dc:title'', ''python''), (''dc:description'', ''3.8.10'')]],
      SetUrl ''ValueTable'' ''values.csv'',
      Write [(''ValueTable'', [[(''ID'', ''1'')]])]]"
  unfolding writer_write_exited [OF example_versions(3) example_pips(2) example_out_dir]
  by (simp add: write_tables_def new_calls_def example_writer_fields record_call_simps
        stamp_sources_calls stamp_sources_components example_cldf_writes python_entry_def)

section \<open>Properties of \<^verbatim>\<open>write\<close>\<close>

text \<open>
  Claim C5. During \<^verbatim>\<open>write\<close> the list of sources is the record of the repository
  of the dataset, if there is one, followed by the records of exactly those values
  of \<^verbatim>\<open>args\<close> that are instances of \<^verbatim>\<open>Catalog\<close>, in their order; and
  \<^verbatim>\<open>add_provenance(wasDerivedFrom=...)\<close> is called on the dataset, with that list, if
  and only if the list is not empty.
\<close>

theorem catalogs_are_sources:
  "srcs w = (case dataset w of
               Some d \<Rightarrow> (case repo d of Some r \<Rightarrow> [r] | None \<Rightarrow> [])
             | None \<Rightarrow> [])
            @ [j. Catalog j \<leftarrow> (case args w of Some a \<Rightarrow> map snd a | None \<Rightarrow> [])]
   \<and> (\<forall>x. AddProvenance ''wasDerivedFrom'' x
             \<in> set (new_calls w (fst (snd (writer_write env w kw f))))
           \<longleftrightarrow> x = srcs w \<and> srcs w \<noteq> [])"
proof
  show "srcs w = (case dataset w of
               Some d \<Rightarrow> (case repo d of Some r \<Rightarrow> [r] | None \<Rightarrow> [])
             | None \<Rightarrow> [])
            @ [j. Catalog j \<leftarrow> (case args w of Some a \<Rightarrow> map snd a | None \<Rightarrow> [])]"
    by (cases "args w") (simp_all add: srcs_def catalog_records_eq)
next
  from writer_write_calls [of env w kw f]
  obtain rest where rest:
    "calls (cldf (fst (snd (writer_write env w kw f)))) = calls (stamp_sources w) @ rest"
    "\<forall>c \<in> set rest. (\<exists>r. c = AddProvenance ''wasGeneratedBy'' r)
                      \<or> (\<exists>a b. c = SetUrl a b) \<or> c = Write kw"
    by blast
  have new: "new_calls w (fst (snd (writer_write env w kw f)))
               = SetProperty ''rdf:type'' ''http://www.w3.org/ns/dcat#Distribution''
                 # (if srcs w \<noteq> [] then [AddProvenance ''wasDerivedFrom'' (srcs w)] else [])
                 @ rest"
    by (simp add: new_calls_def rest(1) stamp_sources_calls)
  have norest: "AddProvenance ''wasDerivedFrom'' x \<notin> set rest" for x
    using rest(2) by auto
  show "\<forall>x. AddProvenance ''wasDerivedFrom'' x
             \<in> set (new_calls w (fst (snd (writer_write env w kw f))))
           \<longleftrightarrow> x = srcs w \<and> srcs w \<noteq> []"
    using norest by (auto simp: new)
qed

theorem catalogs_are_sources_witness:
  "srcs example_writer = [[(''dc:title'', ''Repository'')], [(''dc:title'', ''Glottolog'')]]
   \<and> AddProvenance ''wasDerivedFrom''
        [[(''dc:title'', ''Repository'')], [(''dc:title'', ''Glottolog'')]]
      \<in> set (new_calls example_writer
                (fst (snd (writer_write example_env example_writer (objects example_writer)
                             example_out_fs))))
   \<and> srcs generic_writer = []
   \<and> AddProvenance ''wasDerivedFrom'' []
      \<notin> set (new_calls generic_writer
                (fst (snd (writer_write example_env generic_writer [] example_out_fs))))"
proof -
  have s1: "srcs example_writer
              = [[(''dc:title'', ''Repository'')], [(''dc:title'', ''Glottolog'')]]"
    by (rule example_writer_fields)
  have s2: "srcs generic_writer = []"
    by (simp add: srcs_def generic_writer_def)
  have m1: "AddProvenance ''wasDerivedFrom'' x
              \<in> set (new_calls example_writer
                        (fst (snd (writer_write example_env example_writer
                                     (objects example_writer) example_out_fs))))
            \<longleftrightarrow> x = srcs example_writer \<and> srcs example_writer \<noteq> []" for x
    using catalogs_are_sources [of example_writer example_env "objects example_writer"
        example_out_fs]
    by blast
  have m2: "AddProvenance ''wasDerivedFrom'' x
              \<in> set (new_calls generic_writer
                        (fst (snd (writer_write example_env generic_writer [] example_out_fs))))
            \<longleftrightarrow> x = srcs generic_writer \<and> srcs generic_writer \<noteq> []" for x
    using catalogs_are_sources [of generic_writer example_env "[]" example_out_fs]
    by blast
  show ?thesis
    unfolding m1 m2 s1 s2 by simp
qed

text \<open>
  Claim C6. Every run of \<^verbatim>\<open>write\<close> is to record a \<^verbatim>\<open>wasGeneratedBy\<close> list
  whose first entry has the title \<^verbatim>\<open>python\<close> and as description the first token
  of the version string, whatever the outcome of \<^verbatim>\<open>pip freeze\<close>; line 131 stands
  after the \<^verbatim>\<open>try\<close> statement for that. The code does so when the command exits
  with a status other than zero, and misses it when the command cannot be started:
  \<^verbatim>\<open>FileNotFoundError\<close> is not a \<^verbatim>\<open>CalledProcessError\<close>, it leaves \<^verbatim>\<open>write\<close>
  before line 131, and no \<^verbatim>\<open>wasGeneratedBy\<close> list is recorded. Both runs, on the
  same writer:
\<close>

theorem pip_unavailable_no_generated_by:
  "pip_freeze example_env_pip_fails = Exited 1 []
   \<and> new_calls example_writer
        (fst (snd (writer_write example_env_pip_fails example_writer (objects example_writer)
                     example_out_fs)))
      = [SetProperty ''rdf:type'' ''http://www.w3.org/ns/dcat#Distribution'',
         AddProvenance ''wasDerivedFrom''
           [[(''dc:title'', ''Repository'')], [(''dc:title'', ''Glottolog'')]],
         AddProvenance ''wasGeneratedBy''
           [[(''dc:title'', ''python''), (''dc:description'', ''3.8.10'')]],
         SetUrl ''ValueTable'' ''values.csv'',
         Write [(''ValueTable'', [[(''ID'', ''1'')]])]]
   \<and> pip_freeze example_env_no_pip = NotStarted FileNotFoundError
   \<and> new_calls example_writer
        (fst (snd (writer_write example_env_no_pip example_writer (objects example_writer)
                     example_out_fs)))
      = [SetProperty ''rdf:type'' ''http://www.w3.org/ns/dcat#Distribution'',
         AddProvenance ''wasDerivedFrom''
           [[(''dc:title'', ''Repository'')], [(''dc:title'', ''Glottolog'')]]]"
  using writer_write_not_started [OF example_versions(2) example_pips(1) example_out_dir,
      of "objects example_writer"] example_pip_fails_calls
  by (simp add: example_pips new_calls_def stamp_sources_calls example_writer_fields)

text \<open>
  Claim C1. A package-listing command that is unavailable or fails is to be ignored:
  no entry \<^verbatim>\<open>python-packages\<close>, and \<^verbatim>\<open>write\<close> completes. The \<^verbatim>\<open>try\<close> statement
  with its handler \<^verbatim>\<open>except subprocess.CalledProcessError: pass\<close> does that for a
  command that exits with a status other than zero, and misses the command that
  cannot be started: \<^verbatim>\<open>subprocess.run\<close> then raises \<^verbatim>\<open>FileNotFoundError\<close>, which
  the handler does not name, and \<^verbatim>\<open>write\<close> fails with it. Both runs, on the same
  writer:
\<close>

theorem pip_unavailable_write_fails:
  "pip_freeze example_env_pip_fails = Exited 1 []
   \<and> fst (writer_write example_env_pip_fails example_writer (objects example_writer)
            example_out_fs) = Inr ()
   \<and> pip_freeze example_env_no_pip = NotStarted FileNotFoundError
   \<and> fst (writer_write example_env_no_pip example_writer (objects example_writer)
            example_out_fs) = Inl (OSError FileNotFoundError)"
  using writer_write_not_started [OF example_versions(2) example_pips(1) example_out_dir,
      of "objects example_writer"] example_pip_fails_completes
  by (simp add: example_pips)



section \<open>Properties of the scope of a writer\<close>

text \<open>
  Claim C4, as amended. Leaving the scope of a writer calls \<^verbatim>\<open>write\<close> with the rows
  that \<^verbatim>\<open>objects\<close> holds at that moment, whether the body has returned or raised.
  \<^verbatim>\<open>__exit__\<close> returns \<^verbatim>\<open>None\<close>, so an exception of the body is never
  suppressed: when \<^verbatim>\<open>write\<close> returns normally the outcome of the scope is the outcome
  of the body, and when \<^verbatim>\<open>write\<close> itself raises, its exception is the one that
  leaves the scope.
\<close>

theorem scope_exit_writes:
  assumes "body w f = (r, w1, f1)"
  shows "snd (with_writer env w body f) = snd (writer_write env w1 (objects w1) f1)
       \<and> (fst (writer_write env w1 (objects w1) f1) = Inr ()
            \<longrightarrow> fst (with_writer env w body f) = r)
       \<and> (\<forall>e'. fst (writer_write env w1 (objects w1) f1) = Inl e'
            \<longrightarrow> fst (with_writer env w body f) = Inl e')
       \<and> (\<forall>e. r = Inl e \<longrightarrow> fst (with_writer env w body f) \<noteq> Inr ())"
proof -
  have eq: "with_writer env w body f
              = (case writer_write env w1 (objects w1) f1 of
                   (Inl e', s) \<Rightarrow> (Inl e', s)
                 | (Inr u, s) \<Rightarrow> (r, s))"
    using assms by (rule with_writer_eq)
  obtain x s where x: "writer_write env w1 (objects w1) f1 = (x, s)"
    by (cases "writer_write env w1 (objects w1) f1")
  show ?thesis
    unfolding eq x by (cases x) auto
qed

theorem scope_exit_writes_witness:
  "example_body_raising example_writer example_out_fs
     = (Inl (ValueError ''boom''),
        append_row ''ValueTable'' [(''ID'', ''2'')] example_writer, example_out_fs)
   \<and> fst (writer_write example_env
            (append_row ''ValueTable'' [(''ID'', ''2'')] example_writer)
            (objects (append_row ''ValueTable'' [(''ID'', ''2'')] example_writer)) example_out_fs)
      = Inr ()
   \<and> fst (with_writer example_env example_writer example_body_raising example_out_fs)
      = Inl (ValueError ''boom'')
   \<and> snd (with_writer example_env example_writer example_body_raising example_out_fs)
      = snd (writer_write example_env
               (append_row ''ValueTable'' [(''ID'', ''2'')] example_writer)
               [(''ValueTable'', [[(''ID'', ''1'')], [(''ID'', ''2'')]])] example_out_fs)"
  using example_body example_write_succeeds
    scope_exit_writes [of example_body_raising, OF example_body, of example_env]
  by (simp add: example_appended_fields)

text \<open>
  An exception of the body does not always reach the caller: when \<^verbatim>\<open>write\<close> raises
  in \<^verbatim>\<open>__exit__\<close>, the exception of \<^verbatim>\<open>write\<close> replaces it.
\<close>

theorem scope_exit_counterexample:
  "fst (example_body_raising example_writer example_out_fs) = Inl (ValueError ''boom'')
   \<and> fst (with_writer example_env_write_fails example_writer example_body_raising example_out_fs)
      = Inl (LibraryError ''cannot write'')"
  using with_writer_eq [of example_body_raising, OF example_body, of example_env_write_fails]
    example_write_fails
  by (simp add: example_body split: prod.splits sum.splits)

end
